theory Spec2Isabelle
  imports Complex_Main
begin

section \<open>Values, arrays and errors\<close>

text \<open>
  The module \<^verbatim>\<open>robot3D_basic.py\<close> computes the forward kinematics of a planar arm
  with numpy arrays. Arithmetic is first carried out over the reals: a float that enters
  a sum, a product, \<open>np.cos\<close> or \<open>np.sin\<close> is a \<open>real\<close>, and rounding is not modelled.
  The functions are then repeated on float values with overflow and NaN, for the two
  properties that overflow breaks. A two-dimensional numpy array is the list of its rows
  (an array without rows has no column count here).
\<close>

type_synonym ndarray = "real list list"

text \<open>
  The exceptions. \<open>IndexError\<close> (a list index out of range), \<open>UnboundLocalError\<close>
  (a local variable read before assignment) and \<open>ValueError\<close> (numpy, on arrays whose
  shapes do not fit) are what the interpreter can raise in this code. \<open>InvalidAxis\<close>,
  \<open>DimensionMismatch\<close> and \<open>NonFiniteValue\<close> are the error kinds of the
  specification; no statement of the source raises them.
\<close>

datatype pyerror =
    IndexError
  | UnboundLocalError
  | ValueError
  | InvalidAxis
  | DimensionMismatch
  | NonFiniteValue

text \<open>
  A Python float is a finite number, an infinity or NaN. The last parameter of
  \<open>forward_kinematics\<close> is never read, so it has this full type in the real-valued
  function too, where every other number enters real arithmetic.
\<close>

datatype pyfloat = Finite real | PosInf | NegInf | NaN

definition bind_res :: "pyerror + 'a \<Rightarrow> ('a \<Rightarrow> pyerror + 'b) \<Rightarrow> pyerror + 'b" where
  "bind_res m f = (case m of Inl e \<Rightarrow> Inl e | Inr x \<Rightarrow> f x)"

text \<open>\<open>xs[i]\<close> on a Python list, for an index \<open>i \<ge> 0\<close>.\<close>

definition py_index :: "'a list \<Rightarrow> nat \<Rightarrow> pyerror + 'a" where
  "py_index xs i = (if i < length xs then Inr (xs ! i) else Inl IndexError)"

subsection \<open>The numpy operations the module uses\<close>

definition ncols :: "'a list list \<Rightarrow> nat" where
  "ncols M = (case M of [] \<Rightarrow> 0 | r # _ \<Rightarrow> length r)"

text \<open>\<open>is_shape m n M\<close>: the array has \<open>m\<close> rows of \<open>n\<close> entries each.\<close>

definition is_shape :: "nat \<Rightarrow> nat \<Rightarrow> 'a list list \<Rightarrow> bool" where
  "is_shape m n M = (length M = m \<and> list_all (\<lambda>r. length r = n) M)"

definition np_zeros :: "nat \<Rightarrow> nat \<Rightarrow> ndarray" where
  "np_zeros m n = replicate m (replicate n 0)"

text \<open>
  \<open>np.block\<close> joins the arrays of each inner list side by side (they must have the
  same number of rows) and stacks the results (they must have the same number of
  columns); it raises \<open>ValueError\<close> otherwise.
\<close>

definition np_hstack :: "'a list list \<Rightarrow> 'a list list \<Rightarrow> pyerror + 'a list list" where
  "np_hstack A B = (if length A = length B then Inr (map2 (@) A B) else Inl ValueError)"

definition np_vstack :: "'a list list \<Rightarrow> 'a list list \<Rightarrow> pyerror + 'a list list" where
  "np_vstack A B = (if ncols A = ncols B then Inr (A @ B) else Inl ValueError)"

text \<open>The matrix product \<open>A @ B\<close>: row by column.\<close>

definition dot :: "real list \<Rightarrow> real list \<Rightarrow> real" where
  "dot u v = sum_list (map2 (*) u v)"

definition column :: "'a list list \<Rightarrow> nat \<Rightarrow> 'a list" where
  "column B j = map (\<lambda>r. r ! j) B"

definition mat_mult :: "ndarray \<Rightarrow> ndarray \<Rightarrow> ndarray" where
  "mat_mult A B = map (\<lambda>r. map (\<lambda>j. dot r (column B j)) [0..<ncols B]) A"

definition matmul :: "ndarray \<Rightarrow> ndarray \<Rightarrow> pyerror + ndarray" where
  "matmul A B = (if ncols A = length B then Inr (mat_mult A B) else Inl ValueError)"

text \<open>\<open>T[0:3, -1]\<close>: the last entry of each of the first three rows.\<close>

definition last_column_0_3 :: "'a list list \<Rightarrow> pyerror + 'a list" where
  "last_column_0_3 T = (if ncols T = 0 then Inl IndexError else Inr (map last (take 3 T)))"

section \<open>The functions of the module\<close>

text \<open>
  \<open>RotationMatrix\<close>: the local variable \<open>rotation_matrix\<close> is unbound (\<open>None\<close>) until
  one of the branches assigns it. The first \<open>if\<close> stands alone; the second has the
  \<open>elif\<close>. Returning the variable while it is unbound raises \<open>UnboundLocalError\<close>.
\<close>

definition RotationMatrix :: "real \<Rightarrow> string \<Rightarrow> pyerror + ndarray" where
  "RotationMatrix theta axis_name =
     (let c = cos (theta * pi / 180);
          s = sin (theta * pi / 180);
          rotation_matrix0 =
            (if axis_name = ''x''
             then Some [[1, 0, 0],
                        [0, c, - s],
                        [0, s, c]]
             else None);
          rotation_matrix =
            (if axis_name = ''y''
             then Some [[c, 0, s],
                        [0, 1, 0],
                        [- s, 0, c]]
             else if axis_name = ''z''
             then Some [[c, - s, 0],
                        [s, c, 0],
                        [0, 0, 1]]
             else rotation_matrix0)
      in case rotation_matrix of
           None \<Rightarrow> Inl UnboundLocalError
         | Some R \<Rightarrow> Inr R)"

text \<open>\<open>getLocalFrameMatrix\<close>: \<open>np.block([[R_ij, t_ij], [np.zeros((1, 3)), 1]])\<close>.\<close>

definition getLocalFrameMatrix :: "ndarray \<Rightarrow> ndarray \<Rightarrow> pyerror + ndarray" where
  "getLocalFrameMatrix R_ij t_ij =
     bind_res (np_hstack R_ij t_ij) (\<lambda>top.
     bind_res (np_hstack (np_zeros 1 3) [[1]]) (\<lambda>bottom.
     np_vstack top bottom))"

text \<open>
  \<open>forward_kinematics\<close>, statement by statement. The products are left-associative,
  as Python's \<open>@\<close> is: \<open>T_01 @ T_12 @ T_23\<close> is \<open>(T_01 @ T_12) @ T_23\<close>. \<open>L4\<close> is a
  parameter that no statement reads.
\<close>

definition forward_kinematics ::
  "real list \<Rightarrow> real \<Rightarrow> real \<Rightarrow> real \<Rightarrow> pyfloat \<Rightarrow>
   pyerror + (ndarray \<times> ndarray \<times> ndarray \<times> ndarray \<times> real list)" where
  "forward_kinematics Phi L1 L2 L3 L4 =
     (let r1 = 0.4 in
      bind_res (py_index Phi 0) (\<lambda>phi0.
      bind_res (RotationMatrix phi0 ''z'') (\<lambda>R_01.
      let p1 = [[3], [2], [0]]; t_01 = p1 in
      bind_res (getLocalFrameMatrix R_01 t_01) (\<lambda>T_01.
      bind_res (py_index Phi 1) (\<lambda>phi1.
      bind_res (RotationMatrix phi1 ''z'') (\<lambda>R_12.
      let p2 = [[L1 + 2 * r1], [0], [0]]; t_12 = p2 in
      bind_res (getLocalFrameMatrix R_12 t_12) (\<lambda>T_12.
      bind_res (matmul T_01 T_12) (\<lambda>T_02.
      bind_res (py_index Phi 2) (\<lambda>phi2.
      bind_res (RotationMatrix phi2 ''z'') (\<lambda>R_23.
      let p3 = [[L2 + 2 * r1], [0], [0]]; t_23 = p3 in
      bind_res (getLocalFrameMatrix R_23 t_23) (\<lambda>T_23.
      bind_res (matmul T_01 T_12) (\<lambda>T_012.
      bind_res (matmul T_012 T_23) (\<lambda>T_03.
      bind_res (py_index Phi 3) (\<lambda>phi3.
      bind_res (RotationMatrix phi3 ''z'') (\<lambda>R_34.
      let p4 = [[L3 + 2 * r1], [0], [0]]; t_34 = p4 in
      bind_res (getLocalFrameMatrix R_34 t_34) (\<lambda>T_34.
      bind_res (matmul T_01 T_12) (\<lambda>T_012'.
      bind_res (matmul T_012' T_23) (\<lambda>T_0123.
      bind_res (matmul T_0123 T_34) (\<lambda>T_04.
      bind_res (last_column_0_3 T_04) (\<lambda>e.
      Inr (T_01, T_02, T_03, T_04, e)))))))))))))))))))))"

section \<open>Vocabulary of the properties\<close>

text \<open>
  The local transform of one joint, as \<open>forward_kinematics\<close> builds each of them:
  \<open>getLocalFrameMatrix(RotationMatrix(phi, 'z'), t)\<close>.
\<close>

definition local_frame :: "real \<Rightarrow> ndarray \<Rightarrow> pyerror + ndarray" where
  "local_frame phi t = bind_res (RotationMatrix phi ''z'') (\<lambda>R. getLocalFrameMatrix R t)"

text \<open>
  The left-associative product of a chain of arrays with \<open>@\<close>:
  \<open>chain_product A [B, C, D]\<close> is \<open>((A @ B) @ C) @ D\<close>.
\<close>

fun chain_product :: "ndarray \<Rightarrow> ndarray list \<Rightarrow> pyerror + ndarray" where
  "chain_product A [] = Inr A"
| "chain_product A (B # Bs) = bind_res (matmul A B) (\<lambda>C. chain_product C Bs)"

text \<open>The transpose and the determinant of a 3 by 3 array (cofactors of the first row).\<close>

definition mat_transpose :: "ndarray \<Rightarrow> ndarray" where
  "mat_transpose M = map (column M) [0..<ncols M]"

fun det3 :: "ndarray \<Rightarrow> real" where
  "det3 [[a, b, c], [d, e, f], [g, h, i]] =
     a * (e * i - f * h) - b * (d * i - f * g) + c * (d * h - e * g)"
| "det3 _ = 0"

text \<open>
  Closed forms used in the proofs. \<open>affine2\<close> is a 4 by 4 transform that moves the
  x-y plane in itself; \<open>planar_T\<close> is the local transform of a joint turned by \<open>phi\<close>
  degrees about z at offset \<open>(x, y, 0)\<close>; \<open>fk_frames\<close> is the tuple that
  \<open>forward_kinematics\<close> returns, written with the unchecked product (lemma
  \<open>forward_kinematics_frames\<close> proves that it is).
\<close>

definition affine2 :: "real \<Rightarrow> real \<Rightarrow> real \<Rightarrow> real \<Rightarrow> real \<Rightarrow> real \<Rightarrow> ndarray" where
  "affine2 a b c d x y = [[a, b, 0, x], [c, d, 0, y], [0, 0, 1, 0], [0, 0, 0, 1]]"

definition planar_T :: "real \<Rightarrow> real \<Rightarrow> real \<Rightarrow> ndarray" where
  "planar_T phi x y =
     affine2 (cos (phi * pi / 180)) (- sin (phi * pi / 180))
             (sin (phi * pi / 180)) (cos (phi * pi / 180)) x y"

definition fk_frames ::
  "real list \<Rightarrow> real \<Rightarrow> real \<Rightarrow> real \<Rightarrow>
   ndarray \<times> ndarray \<times> ndarray \<times> ndarray \<times> real list" where
  "fk_frames Phi L1 L2 L3 =
     (let T_01 = planar_T (Phi ! 0) 3 2;
          T_12 = planar_T (Phi ! 1) (L1 + 2 * 0.4) 0;
          T_23 = planar_T (Phi ! 2) (L2 + 2 * 0.4) 0;
          T_34 = planar_T (Phi ! 3) (L3 + 2 * 0.4) 0;
          T_02 = mat_mult T_01 T_12;
          T_03 = mat_mult T_02 T_23;
          T_04 = mat_mult T_03 T_34
      in (T_01, T_02, T_03, T_04, map last (take 3 T_04)))"

section \<open>The same functions on float values\<close>

text \<open>
  Two effects of float arithmetic change what the module returns, and the real numbers
  have neither: a result beyond the largest float becomes an infinity, and an undefined
  result (\<open>cos\<close> of an infinity, \<open>0 * inf\<close>, \<open>inf - inf\<close>, anything of a NaN) is NaN; numpy
  warns in both cases and raises nothing. This section repeats the functions of the
  module on \<open>pyfloat\<close> values with these two effects. The rounding of a finite result is
  still not modelled, and \<open>-0.0\<close> is not told from \<open>0.0\<close> (they compare equal).
\<close>

type_synonym farray = "pyfloat list list"

definition fmax :: real where
  "fmax = 2 ^ 1024 - 2 ^ 971"

definition overflow :: "real \<Rightarrow> pyfloat" where
  "overflow r = (if fmax < r then PosInf else if r < - fmax then NegInf else Finite r)"

fun fsign :: "pyfloat \<Rightarrow> real" where
  "fsign (Finite a) = sgn a"
| "fsign PosInf = 1"
| "fsign NegInf = - 1"
| "fsign NaN = 0"

fun fneg :: "pyfloat \<Rightarrow> pyfloat" where
  "fneg (Finite a) = Finite (- a)"
| "fneg PosInf = NegInf"
| "fneg NegInf = PosInf"
| "fneg NaN = NaN"

fun fadd :: "pyfloat \<Rightarrow> pyfloat \<Rightarrow> pyfloat" where
  "fadd NaN y = NaN"
| "fadd x NaN = NaN"
| "fadd (Finite a) (Finite b) = overflow (a + b)"
| "fadd PosInf NegInf = NaN"
| "fadd NegInf PosInf = NaN"
| "fadd PosInf y = PosInf"
| "fadd NegInf y = NegInf"
| "fadd x PosInf = PosInf"
| "fadd x NegInf = NegInf"

fun fmul :: "pyfloat \<Rightarrow> pyfloat \<Rightarrow> pyfloat" where
  "fmul NaN y = NaN"
| "fmul x NaN = NaN"
| "fmul (Finite a) (Finite b) = overflow (a * b)"
| "fmul x y =
     (if fsign x * fsign y = 0 then NaN
      else if 0 < fsign x * fsign y then PosInf else NegInf)"

text \<open>\<open>x / d\<close> for a positive finite constant \<open>d\<close> (the source divides by 180 only).\<close>

fun fdiv_const :: "pyfloat \<Rightarrow> real \<Rightarrow> pyfloat" where
  "fdiv_const (Finite a) d = overflow (a / d)"
| "fdiv_const x d = x"

fun fcos :: "pyfloat \<Rightarrow> pyfloat" where
  "fcos (Finite a) = Finite (cos a)"
| "fcos x = NaN"

fun fsin :: "pyfloat \<Rightarrow> pyfloat" where
  "fsin (Finite a) = Finite (sin a)"
| "fsin x = NaN"

definition np_zeros_fl :: "nat \<Rightarrow> nat \<Rightarrow> farray" where
  "np_zeros_fl m n = replicate m (replicate n (Finite 0))"

text \<open>
  The products of a row and a column are added from left to right. numpy does not fix
  the order; no statement below depends on it.
\<close>

definition dot_fl :: "pyfloat list \<Rightarrow> pyfloat list \<Rightarrow> pyfloat" where
  "dot_fl u v = (case map2 fmul u v of [] \<Rightarrow> Finite 0 | p # ps \<Rightarrow> foldl fadd p ps)"

definition mat_mult_fl :: "farray \<Rightarrow> farray \<Rightarrow> farray" where
  "mat_mult_fl A B = map (\<lambda>r. map (\<lambda>j. dot_fl r (column B j)) [0..<ncols B]) A"

definition matmul_fl :: "farray \<Rightarrow> farray \<Rightarrow> pyerror + farray" where
  "matmul_fl A B = (if ncols A = length B then Inr (mat_mult_fl A B) else Inl ValueError)"

definition RotationMatrix_fl :: "pyfloat \<Rightarrow> string \<Rightarrow> pyerror + farray" where
  "RotationMatrix_fl theta axis_name =
     (let c = fcos (fdiv_const (fmul theta (Finite pi)) 180);
          s = fsin (fdiv_const (fmul theta (Finite pi)) 180);
          rotation_matrix0 =
            (if axis_name = ''x''
             then Some [[Finite 1, Finite 0, Finite 0],
                        [Finite 0, c, fneg s],
                        [Finite 0, s, c]]
             else None);
          rotation_matrix =
            (if axis_name = ''y''
             then Some [[c, Finite 0, s],
                        [Finite 0, Finite 1, Finite 0],
                        [fneg s, Finite 0, c]]
             else if axis_name = ''z''
             then Some [[c, fneg s, Finite 0],
                        [s, c, Finite 0],
                        [Finite 0, Finite 0, Finite 1]]
             else rotation_matrix0)
      in case rotation_matrix of
           None \<Rightarrow> Inl UnboundLocalError
         | Some R \<Rightarrow> Inr R)"

definition getLocalFrameMatrix_fl :: "farray \<Rightarrow> farray \<Rightarrow> pyerror + farray" where
  "getLocalFrameMatrix_fl R_ij t_ij =
     bind_res (np_hstack R_ij t_ij) (\<lambda>top.
     bind_res (np_hstack (np_zeros_fl 1 3) [[Finite 1]]) (\<lambda>bottom.
     np_vstack top bottom))"

definition forward_kinematics_fl ::
  "pyfloat list \<Rightarrow> pyfloat \<Rightarrow> pyfloat \<Rightarrow> pyfloat \<Rightarrow> pyfloat \<Rightarrow>
   pyerror + (farray \<times> farray \<times> farray \<times> farray \<times> pyfloat list)" where
  "forward_kinematics_fl Phi L1 L2 L3 L4 =
     (let r1 = Finite 0.4 in
      bind_res (py_index Phi 0) (\<lambda>phi0.
      bind_res (RotationMatrix_fl phi0 ''z'') (\<lambda>R_01.
      let p1 = [[Finite 3], [Finite 2], [Finite 0]]; t_01 = p1 in
      bind_res (getLocalFrameMatrix_fl R_01 t_01) (\<lambda>T_01.
      bind_res (py_index Phi 1) (\<lambda>phi1.
      bind_res (RotationMatrix_fl phi1 ''z'') (\<lambda>R_12.
      let p2 = [[fadd L1 (fmul (Finite 2) r1)], [Finite 0], [Finite 0]]; t_12 = p2 in
      bind_res (getLocalFrameMatrix_fl R_12 t_12) (\<lambda>T_12.
      bind_res (matmul_fl T_01 T_12) (\<lambda>T_02.
      bind_res (py_index Phi 2) (\<lambda>phi2.
      bind_res (RotationMatrix_fl phi2 ''z'') (\<lambda>R_23.
      let p3 = [[fadd L2 (fmul (Finite 2) r1)], [Finite 0], [Finite 0]]; t_23 = p3 in
      bind_res (getLocalFrameMatrix_fl R_23 t_23) (\<lambda>T_23.
      bind_res (matmul_fl T_01 T_12) (\<lambda>T_012.
      bind_res (matmul_fl T_012 T_23) (\<lambda>T_03.
      bind_res (py_index Phi 3) (\<lambda>phi3.
      bind_res (RotationMatrix_fl phi3 ''z'') (\<lambda>R_34.
      let p4 = [[fadd L3 (fmul (Finite 2) r1)], [Finite 0], [Finite 0]]; t_34 = p4 in
      bind_res (getLocalFrameMatrix_fl R_34 t_34) (\<lambda>T_34.
      bind_res (matmul_fl T_01 T_12) (\<lambda>T_012'.
      bind_res (matmul_fl T_012' T_23) (\<lambda>T_0123.
      bind_res (matmul_fl T_0123 T_34) (\<lambda>T_04.
      bind_res (last_column_0_3 T_04) (\<lambda>e.
      Inr (T_01, T_02, T_03, T_04, e)))))))))))))))))))))"

text \<open>
  The inputs on which no step overflows where it matters: an angle whose product with
  \<open>\<pi>\<close> is within float range, and a link length whose sum with \<open>2 * r1\<close> is.
\<close>

definition angle_in_range :: "pyfloat \<Rightarrow> bool" where
  "angle_in_range phi = (case phi of Finite a \<Rightarrow> \<bar>a * pi\<bar> \<le> fmax | _ \<Rightarrow> False)"

definition length_in_range :: "pyfloat \<Rightarrow> bool" where
  "length_in_range L = (case L of Finite l \<Rightarrow> \<bar>l + 2 * 0.4\<bar> \<le> fmax | _ \<Rightarrow> False)"

definition is_Finite :: "pyfloat \<Rightarrow> bool" where
  "is_Finite x = (case x of Finite a \<Rightarrow> True | _ \<Rightarrow> False)"

text \<open>
  The two rows that keep the arm rigid and planar: the z row \<open>[0, 0, 1, 0]\<close> and the
  bottom row \<open>[0, 0, 0, 1]\<close> of a 4 by 4 transform.
\<close>

definition z_row :: "pyfloat list" where
  "z_row = [Finite 0, Finite 0, Finite 1, Finite 0]"

definition bottom_row :: "pyfloat list" where
  "bottom_row = [Finite 0, Finite 0, Finite 0, Finite 1]"

definition planar_rows :: "farray \<Rightarrow> bool" where
  "planar_rows T =
     (length T = 4 \<and> length (T ! 0) = 4 \<and> length (T ! 1) = 4 \<and>
      T ! 2 = z_row \<and> T ! 3 = bottom_row)"

text \<open>The local transform of a joint with finite entries, used in the proofs.\<close>

definition faffine :: "real \<Rightarrow> real \<Rightarrow> real \<Rightarrow> real \<Rightarrow> real \<Rightarrow> real \<Rightarrow> farray" where
  "faffine a b c d x y =
     [[Finite a, Finite b, Finite 0, Finite x],
      [Finite c, Finite d, Finite 0, Finite y],
      [Finite 0, Finite 0, Finite 1, Finite 0],
      [Finite 0, Finite 0, Finite 0, Finite 1]]"

text \<open>The local transform of one joint on float values, as \<open>local_frame\<close> above.\<close>

definition local_frame_fl :: "pyfloat \<Rightarrow> farray \<Rightarrow> pyerror + farray" where
  "local_frame_fl phi t =
     bind_res (RotationMatrix_fl phi ''z'') (\<lambda>R. getLocalFrameMatrix_fl R t)"

section \<open>Evaluating the functions\<close>

lemma bind_res_Inr: "bind_res (Inr x) f = f x"
  by (simp add: bind_res_def)

lemma bind_res_Inl: "bind_res (Inl e) f = Inl e"
  by (simp add: bind_res_def)

lemma upt_4: "[0..<4] = [0, 1, 2, 3]"
  by (simp add: upt_rec)

lemma upt_3: "[0..<3] = [0, 1, 2]"
  by (simp add: upt_rec)

lemma RotationMatrix_z:
  "RotationMatrix phi ''z'' =
     Inr [[cos (phi * pi / 180), - sin (phi * pi / 180), 0],
          [sin (phi * pi / 180), cos (phi * pi / 180), 0],
          [0, 0, 1]]"
  by (simp add: RotationMatrix_def Let_def)

lemma getLocalFrameMatrix_3:
  "getLocalFrameMatrix [[a, b, c], [d, e, f], [g, h, i]] [[x], [y], [z]] =
     Inr [[a, b, c, x], [d, e, f, y], [g, h, i, z], [0, 0, 0, 1]]"
  by (simp add: getLocalFrameMatrix_def bind_res_def np_hstack_def np_vstack_def
      np_zeros_def ncols_def eval_nat_numeral)

lemma getLocalFrameMatrix_z:
  "bind_res (RotationMatrix phi ''z'')
     (\<lambda>R. bind_res (getLocalFrameMatrix R [[x], [y], [0]]) f) = f (planar_T phi x y)"
  by (simp add: RotationMatrix_z getLocalFrameMatrix_3 bind_res_def planar_T_def affine2_def)

lemma local_frame_z: "local_frame phi [[x], [y], [0]] = Inr (planar_T phi x y)"
  by (simp add: local_frame_def RotationMatrix_z getLocalFrameMatrix_3 bind_res_def
      planar_T_def affine2_def)

lemma mat_mult_affine2:
  "mat_mult (affine2 a b c d x y) (affine2 a' b' c' d' x' y') =
     affine2 (a * a' + b * c') (a * b' + b * d') (c * a' + d * c') (c * b' + d * d')
             (a * x' + b * y' + x) (c * x' + d * y' + y)"
  by (simp add: mat_mult_def affine2_def ncols_def dot_def column_def upt_4)

lemma matmul_affine2:
  "matmul (affine2 a b c d x y) (affine2 a' b' c' d' x' y') =
     Inr (mat_mult (affine2 a b c d x y) (affine2 a' b' c' d' x' y'))"
  by (simp add: matmul_def affine2_def ncols_def)

lemma last_column_affine2: "last_column_0_3 (affine2 a b c d x y) = Inr [x, y, 0]"
  by (simp add: last_column_0_3_def affine2_def ncols_def eval_nat_numeral)

text \<open>With fewer than four angles, one of \<open>Phi[0]\<close>, ..., \<open>Phi[3]\<close> raises.\<close>

lemma forward_kinematics_short:
  "length Phi < 4 \<Longrightarrow> forward_kinematics Phi L1 L2 L3 L4 = Inl IndexError"
  by (simp add: forward_kinematics_def Let_def py_index_def getLocalFrameMatrix_z
      planar_T_def matmul_affine2 mat_mult_affine2 bind_res_Inr bind_res_Inl)

text \<open>With four angles or more, every step succeeds and the result is \<open>fk_frames\<close>.\<close>

lemma forward_kinematics_frames:
  assumes "4 \<le> length Phi"
  shows "forward_kinematics Phi L1 L2 L3 L4 = Inr (fk_frames Phi L1 L2 L3)"
proof -
  from assms have idx: "0 < length Phi" "1 < length Phi" "2 < length Phi" "3 < length Phi"
    by auto
  show ?thesis
    unfolding forward_kinematics_def fk_frames_def Let_def
    using idx
    by (simp add: py_index_def getLocalFrameMatrix_z planar_T_def matmul_affine2
        mat_mult_affine2 bind_res_Inr last_column_affine2)
       (simp add: affine2_def)
qed

lemma cos_sin_sq: "cos x * cos x + sin x * sin x = (1::real)"
  using sin_cos_squared_add3 [of x] by simp

lemma sin_cos_sq: "sin x * sin x + cos x * cos x = (1::real)"
  using cos_sin_sq [of x] by (simp add: add.commute)

section \<open>The kinematic chain\<close>

text \<open>
  C1. For every configuration with the four angles that \<open>forward_kinematics\<close> reads,
  the call returns, and each world transform it returns is the left-associative product
  of the local transforms up to its frame, where the local transforms are
  \<open>getLocalFrameMatrix(RotationMatrix(Phi[i-1], 'z'), t_i)\<close> with the translations of
  the source: \<open>T_02 = T_01 @ T_12\<close>, \<open>T_03 = (T_01 @ T_12) @ T_23\<close>,
  \<open>T_04 = ((T_01 @ T_12) @ T_23) @ T_34\<close>; and \<open>T_03\<close> is also the incremental
  product \<open>T_02 @ T_23\<close>.
\<close>

theorem forward_kinematics_products:
  assumes "4 \<le> length Phi"
  shows "\<exists>T_01 T_12 T_23 T_34 T_02 T_03 T_04 e.
     forward_kinematics Phi L1 L2 L3 L4 = Inr (T_01, T_02, T_03, T_04, e) \<and>
     local_frame (Phi ! 0) [[3], [2], [0]] = Inr T_01 \<and>
     local_frame (Phi ! 1) [[L1 + 2 * 0.4], [0], [0]] = Inr T_12 \<and>
     local_frame (Phi ! 2) [[L2 + 2 * 0.4], [0], [0]] = Inr T_23 \<and>
     local_frame (Phi ! 3) [[L3 + 2 * 0.4], [0], [0]] = Inr T_34 \<and>
     chain_product T_01 [T_12] = Inr T_02 \<and>
     chain_product T_01 [T_12, T_23] = Inr T_03 \<and>
     chain_product T_01 [T_12, T_23, T_34] = Inr T_04 \<and>
     matmul T_02 T_23 = Inr T_03"
proof -
  define T_01 where "T_01 = planar_T (Phi ! 0) 3 2"
  define T_12 where "T_12 = planar_T (Phi ! 1) (L1 + 2 * 0.4) 0"
  define T_23 where "T_23 = planar_T (Phi ! 2) (L2 + 2 * 0.4) 0"
  define T_34 where "T_34 = planar_T (Phi ! 3) (L3 + 2 * 0.4) 0"
  define T_02 where "T_02 = mat_mult T_01 T_12"
  define T_03 where "T_03 = mat_mult T_02 T_23"
  define T_04 where "T_04 = mat_mult T_03 T_34"
  note defs = T_01_def T_12_def T_23_def T_34_def T_02_def T_03_def T_04_def
  have fk: "forward_kinematics Phi L1 L2 L3 L4 =
      Inr (T_01, T_02, T_03, T_04, map last (take 3 T_04))"
    using forward_kinematics_frames [OF assms, of L1 L2 L3 L4]
    by (simp add: fk_frames_def Let_def defs)
  have m2: "matmul T_01 T_12 = Inr T_02"
    by (simp add: defs planar_T_def matmul_affine2)
  have m3: "matmul T_02 T_23 = Inr T_03"
    by (simp add: defs planar_T_def matmul_affine2 mat_mult_affine2)
  have m4: "matmul T_03 T_34 = Inr T_04"
    by (simp add: defs planar_T_def matmul_affine2 mat_mult_affine2)
  have "chain_product T_01 [T_12] = Inr T_02"
    and "chain_product T_01 [T_12, T_23] = Inr T_03"
    and "chain_product T_01 [T_12, T_23, T_34] = Inr T_04"
    by (simp_all add: m2 m3 m4 bind_res_Inr)
  moreover have "local_frame (Phi ! 0) [[3], [2], [0]] = Inr T_01"
    and "local_frame (Phi ! 1) [[L1 + 2 * 0.4], [0], [0]] = Inr T_12"
    and "local_frame (Phi ! 2) [[L2 + 2 * 0.4], [0], [0]] = Inr T_23"
    and "local_frame (Phi ! 3) [[L3 + 2 * 0.4], [0], [0]] = Inr T_34"
    by (simp_all only: local_frame_z defs)
  ultimately show ?thesis
    using fk m3 by blast
qed

text \<open>The same at the angles \<open>[0, 0, 0, 0]\<close> and the link lengths 1, 2, 3.\<close>

theorem forward_kinematics_products_witness:
  "4 \<le> length [0, 0, 0, 0 :: real] \<and>
   (\<exists>T_01 T_12 T_23 T_34 T_02 T_03 T_04 e.
     forward_kinematics [0, 0, 0, 0] 1 2 3 (Finite 0) = Inr (T_01, T_02, T_03, T_04, e) \<and>
     local_frame ([0, 0, 0, 0] ! 0) [[3], [2], [0]] = Inr T_01 \<and>
     local_frame ([0, 0, 0, 0] ! 1) [[1 + 2 * 0.4], [0], [0]] = Inr T_12 \<and>
     local_frame ([0, 0, 0, 0] ! 2) [[2 + 2 * 0.4], [0], [0]] = Inr T_23 \<and>
     local_frame ([0, 0, 0, 0] ! 3) [[3 + 2 * 0.4], [0], [0]] = Inr T_34 \<and>
     chain_product T_01 [T_12] = Inr T_02 \<and>
     chain_product T_01 [T_12, T_23] = Inr T_03 \<and>
     chain_product T_01 [T_12, T_23, T_34] = Inr T_04 \<and>
     matmul T_02 T_23 = Inr T_03)"
proof -
  have h: "4 \<le> length [0, 0, 0, 0 :: real]" by simp
  show ?thesis
    using h forward_kinematics_products [OF h, of 1 2 3 "Finite 0"] by blast
qed

text \<open>
  C2. When all joint angles are 0, the end-effector position is the base offset plus
  the three link terms along x: \<open>e = (3 + (L1 + 2 r1) + (L2 + 2 r1) + (L3 + 2 r1), 2, 0)\<close>
  with \<open>r1 = 0.4\<close>, for every \<open>L1\<close>, \<open>L2\<close>, \<open>L3\<close>, \<open>L4\<close>.
\<close>

theorem forward_kinematics_zero_angles:
  assumes "4 \<le> length Phi" and "list_all (\<lambda>phi. phi = 0) Phi"
  shows "\<exists>T_01 T_02 T_03 T_04.
     forward_kinematics Phi L1 L2 L3 L4 =
       Inr (T_01, T_02, T_03, T_04,
            [3 + (L1 + 2 * 0.4) + (L2 + 2 * 0.4) + (L3 + 2 * 0.4), 2, 0])"
proof -
  have zero: "Phi ! n = 0" if "n < 4" for n
  proof -
    from that assms(1) have "n < length Phi" by simp
    with assms(2) show ?thesis by (simp add: list_all_length)
  qed
  have z: "Phi ! 0 = 0" "Phi ! Suc 0 = 0" "Phi ! 2 = 0" "Phi ! 3 = 0"
    by (simp_all add: zero)
  have "snd (snd (snd (snd (fk_frames Phi L1 L2 L3)))) =
      [3 + (L1 + 2 * 0.4) + (L2 + 2 * 0.4) + (L3 + 2 * 0.4), 2, 0]"
    by (simp add: fk_frames_def Let_def z planar_T_def mat_mult_affine2)
       (simp add: affine2_def eval_nat_numeral)
  then show ?thesis
    using forward_kinematics_frames [OF assms(1), of L1 L2 L3 L4]
    by (metis prod.collapse)
qed

text \<open>The same at the link lengths 5, 8, 3 of \<open>main\<close>.\<close>

theorem forward_kinematics_zero_angles_witness:
  "4 \<le> length [0, 0, 0, 0 :: real] \<and> list_all (\<lambda>phi. phi = 0) [0, 0, 0, 0 :: real] \<and>
   (\<exists>T_01 T_02 T_03 T_04.
     forward_kinematics [0, 0, 0, 0] 5 8 3 (Finite 0) =
       Inr (T_01, T_02, T_03, T_04, [3 + (5 + 2 * 0.4) + (8 + 2 * 0.4) + (3 + 2 * 0.4), 2, 0]))"
proof -
  have h1: "4 \<le> length [0, 0, 0, 0 :: real]" by simp
  have h2: "list_all (\<lambda>phi. phi = 0) [0, 0, 0, 0 :: real]" by simp
  show ?thesis
    using h1 h2 forward_kinematics_zero_angles [OF h1 h2, of 5 8 3 "Finite 0"] by blast
qed

section \<open>Rotation matrices\<close>

text \<open>
  C3. For every angle and every axis among x, y and z, \<open>RotationMatrix\<close> returns a
  matrix \<open>R\<close> with \<open>R R\<^sup>t = I\<close> and \<open>det R = 1\<close>, over the reals.
\<close>

theorem RotationMatrix_orthonormal:
  assumes "axis_name \<in> {''x'', ''y'', ''z''}"
  shows "\<exists>R. RotationMatrix theta axis_name = Inr R \<and>
     mat_mult R (mat_transpose R) = [[1, 0, 0], [0, 1, 0], [0, 0, 1]] \<and>
     det3 R = 1"
proof -
  let ?c = "cos (theta * pi / 180)" and ?s = "sin (theta * pi / 180)"
  from assms consider "axis_name = ''x''" | "axis_name = ''y''" | "axis_name = ''z''"
    by auto
  then show ?thesis
  proof cases
    case 1
    then have "RotationMatrix theta axis_name = Inr [[1, 0, 0], [0, ?c, - ?s], [0, ?s, ?c]]"
      by (simp add: RotationMatrix_def Let_def)
    then show ?thesis
      by (simp add: mat_mult_def mat_transpose_def ncols_def dot_def column_def upt_3
          cos_sin_sq sin_cos_sq)
  next
    case 2
    then have "RotationMatrix theta axis_name = Inr [[?c, 0, ?s], [0, 1, 0], [- ?s, 0, ?c]]"
      by (simp add: RotationMatrix_def Let_def)
    then show ?thesis
      by (simp add: mat_mult_def mat_transpose_def ncols_def dot_def column_def upt_3
          cos_sin_sq sin_cos_sq)
  next
    case 3
    then have "RotationMatrix theta axis_name = Inr [[?c, - ?s, 0], [?s, ?c, 0], [0, 0, 1]]"
      by (simp add: RotationMatrix_def Let_def)
    then show ?thesis
      by (simp add: mat_mult_def mat_transpose_def ncols_def dot_def column_def upt_3
          cos_sin_sq sin_cos_sq)
  qed
qed

text \<open>The same at 180 degrees about y, where the matrix is \<open>diag (-1, 1, -1)\<close>.\<close>

theorem RotationMatrix_orthonormal_witness:
  "''y'' \<in> {''x'', ''y'', ''z''} \<and>
   (\<exists>R. RotationMatrix 180 ''y'' = Inr R \<and>
     mat_mult R (mat_transpose R) = [[1, 0, 0], [0, 1, 0], [0, 0, 1]] \<and>
     det3 R = 1) \<and>
   RotationMatrix 180 ''y'' = Inr [[- 1, 0, 0], [0, 1, 0], [0, 0, - 1]]"
proof -
  have h: "''y'' \<in> {''x'', ''y'', ''z''}" by simp
  have "RotationMatrix 180 ''y'' = Inr [[- 1, 0, 0], [0, 1, 0], [0, 0, - 1]]"
    by (simp add: RotationMatrix_def Let_def)
  then show ?thesis
    using h RotationMatrix_orthonormal [OF h, of 180] by blast
qed

text \<open>
  C4, as the source has it. For an axis identifier other than x, y and z no branch
  assigns \<open>rotation_matrix\<close>, and the \<open>return\<close> raises \<open>UnboundLocalError\<close>: the call
  fails and returns nothing, neither a matrix nor an identity; the error is the
  interpreter's, not an \<open>InvalidAxis\<close>.
\<close>

theorem RotationMatrix_unknown_axis:
  assumes "axis_name \<notin> {''x'', ''y'', ''z''}"
  shows "RotationMatrix theta axis_name = Inl UnboundLocalError"
  using assms by (simp add: RotationMatrix_def Let_def)

text \<open>The same at the axis \<open>w\<close> and 45 degrees.\<close>

theorem RotationMatrix_unknown_axis_witness:
  "''w'' \<notin> {''x'', ''y'', ''z''} \<and> RotationMatrix 45 ''w'' = Inl UnboundLocalError"
proof -
  have h: "''w'' \<notin> {''x'', ''y'', ''z''}" by simp
  show ?thesis using h RotationMatrix_unknown_axis [OF h, of 45] by simp
qed

text \<open>
  C4, as the specification words it, fails: at the axis \<open>w\<close> the error is not
  \<open>InvalidAxis\<close>.
\<close>

theorem RotationMatrix_unknown_axis_counterexample:
  "RotationMatrix 0 ''w'' = Inl UnboundLocalError \<and> RotationMatrix 0 ''w'' \<noteq> Inl InvalidAxis"
  by (simp add: RotationMatrix_def)

section \<open>Arrays of a known shape\<close>

text \<open>
  An array of a given small shape is the explicit list of its entries.
\<close>

lemma list_1: "length xs = 1 \<Longrightarrow> \<exists>a. xs = [a]"
  by (cases xs) auto

lemma list_3: "length xs = 3 \<Longrightarrow> \<exists>a b c. xs = [a, b, c]"
  by (auto simp: eval_nat_numeral length_Suc_conv)

lemma list_4: "length xs = 4 \<Longrightarrow> \<exists>a b c d. xs = [a, b, c, d]"
  by (auto simp: eval_nat_numeral length_Suc_conv)

lemma shape_3_3:
  assumes "is_shape 3 3 R"
  shows "\<exists>a b c d e f g h i. R = [[a, b, c], [d, e, f], [g, h, i]]"
proof -
  from assms obtain r0 r1 r2 where R: "R = [r0, r1, r2]"
    using list_3 [of R] by (auto simp: is_shape_def)
  with assms have "length r0 = 3" "length r1 = 3" "length r2 = 3"
    by (simp_all add: is_shape_def)
  then show ?thesis
    using list_3 [of r0] list_3 [of r1] list_3 [of r2] R by blast
qed

lemma shape_3_1:
  assumes "is_shape 3 1 t"
  shows "\<exists>x y z. t = [[x], [y], [z]]"
proof -
  from assms obtain r0 r1 r2 where t: "t = [r0, r1, r2]"
    using list_3 [of t] by (auto simp: is_shape_def)
  with assms have "length r0 = 1" "length r1 = 1" "length r2 = 1"
    by (simp_all add: is_shape_def)
  then show ?thesis
    using list_1 [of r0] list_1 [of r1] list_1 [of r2] t by blast
qed

lemma shape_4_4:
  assumes "is_shape 4 4 A"
  shows "\<exists>a0 a1 a2 a3 b0 b1 b2 b3 c0 c1 c2 c3 d0 d1 d2 d3.
     A = [[a0, a1, a2, a3], [b0, b1, b2, b3], [c0, c1, c2, c3], [d0, d1, d2, d3]]"
proof -
  from assms obtain r0 r1 r2 r3 where A: "A = [r0, r1, r2, r3]"
    using list_4 [of A] by (auto simp: is_shape_def)
  with assms have "length r0 = 4" "length r1 = 4" "length r2 = 4" "length r3 = 4"
    by (simp_all add: is_shape_def)
  then show ?thesis
    using list_4 [of r0] list_4 [of r1] list_4 [of r2] list_4 [of r3] A by blast
qed

section \<open>Homogeneous transforms\<close>

text \<open>
  C5. For every 3 by 3 array \<open>R\<close> and 3 by 1 array \<open>t\<close>, \<open>getLocalFrameMatrix\<close>
  returns a transform \<open>T\<close>, and \<open>T\<close> applied to the homogeneous origin
  \<open>(0, 0, 0, 1)\<^sup>t\<close> is \<open>t\<close> with 1 appended.
\<close>

theorem getLocalFrameMatrix_origin:
  assumes "is_shape 3 3 R" and "is_shape 3 1 t"
  shows "\<exists>T. getLocalFrameMatrix R t = Inr T \<and>
     matmul T [[0], [0], [0], [1]] = Inr (t @ [[1]])"
proof -
  from assms(1) obtain a b c d e f g h i where R: "R = [[a, b, c], [d, e, f], [g, h, i]]"
    using shape_3_3 by blast
  from assms(2) obtain x y z where t: "t = [[x], [y], [z]]"
    using shape_3_1 by blast
  have "matmul [[a, b, c, x], [d, e, f, y], [g, h, i, z], [0, 0, 0, 1]] [[0], [0], [0], [1]]
      = Inr [[x], [y], [z], [1]]"
    by (simp add: matmul_def mat_mult_def ncols_def dot_def column_def)
  then show ?thesis
    by (simp add: R t getLocalFrameMatrix_3)
qed

text \<open>
  The same at a quarter turn about z and the base offset \<open>(3, 2, 0)\<close>.
\<close>

theorem getLocalFrameMatrix_origin_witness:
  "is_shape 3 3 [[0, - 1, 0], [1, 0, 0], [0, 0, 1]] \<and> is_shape 3 1 [[3], [2], [0]] \<and>
   getLocalFrameMatrix [[0, - 1, 0], [1, 0, 0], [0, 0, 1]] [[3], [2], [0]] =
     Inr [[0, - 1, 0, 3], [1, 0, 0, 2], [0, 0, 1, 0], [0, 0, 0, 1]] \<and>
   matmul [[0, - 1, 0, 3], [1, 0, 0, 2], [0, 0, 1, 0], [0, 0, 0, 1]] [[0], [0], [0], [1]] =
     Inr [[3], [2], [0], [1]]"
proof -
  have h1: "is_shape 3 3 [[0, - 1, 0], [1, 0, 0], [0, 0, 1]]" by (simp add: is_shape_def)
  have h2: "is_shape 3 1 [[3], [2], [0]]" by (simp add: is_shape_def)
  show ?thesis
    using h1 h2 getLocalFrameMatrix_origin [OF h1 h2]
    by (auto simp: getLocalFrameMatrix_3)
qed

section \<open>Inputs that the specification rejects\<close>

lemma fk_frames_take: "fk_frames (take 4 Phi) L1 L2 L3 = fk_frames Phi L1 L2 L3"
  by (simp add: fk_frames_def)

text \<open>
  C7, as the source has it. \<open>forward_kinematics\<close> takes the four link lengths as
  four separate arguments and never compares their number with the number of angles.
  With fewer than four angles it fails with \<open>IndexError\<close>; with four or more it
  returns the transforms of the first four angles and ignores the rest.
\<close>

theorem forward_kinematics_angle_count:
  "(length Phi < 4 \<longrightarrow> forward_kinematics Phi L1 L2 L3 L4 = Inl IndexError) \<and>
   (4 \<le> length Phi \<longrightarrow>
      (\<exists>r. forward_kinematics Phi L1 L2 L3 L4 = Inr r \<and>
           forward_kinematics (take 4 Phi) L1 L2 L3 L4 = Inr r))"
proof (intro conjI impI)
  assume "length Phi < 4"
  then show "forward_kinematics Phi L1 L2 L3 L4 = Inl IndexError"
    by (rule forward_kinematics_short)
next
  assume len: "4 \<le> length Phi"
  then have "4 \<le> length (take 4 Phi)" by simp
  then have "forward_kinematics (take 4 Phi) L1 L2 L3 L4 = Inr (fk_frames Phi L1 L2 L3)"
    using forward_kinematics_frames [of "take 4 Phi" L1 L2 L3 L4] by (simp add: fk_frames_take)
  with forward_kinematics_frames [OF len, of L1 L2 L3 L4]
  show "\<exists>r. forward_kinematics Phi L1 L2 L3 L4 = Inr r \<and>
           forward_kinematics (take 4 Phi) L1 L2 L3 L4 = Inr r"
    by blast
qed

text \<open>
  The same at three angles, and at five angles of which the fifth is 90.
\<close>

theorem forward_kinematics_angle_count_witness:
  "length [0, 0, 0 :: real] < 4 \<and>
   forward_kinematics [0, 0, 0] 5 8 3 (Finite 0) = Inl IndexError \<and>
   4 \<le> length [0, 0, 0, 0, 90 :: real] \<and>
   (\<exists>r. forward_kinematics [0, 0, 0, 0, 90] 5 8 3 (Finite 0) = Inr r \<and>
        forward_kinematics (take 4 [0, 0, 0, 0, 90]) 5 8 3 (Finite 0) = Inr r)"
  using forward_kinematics_angle_count [of "[0, 0, 0]" 5 8 3 "Finite 0"]
    forward_kinematics_angle_count [of "[0, 0, 0, 0, 90]" 5 8 3 "Finite 0"]
  by simp

text \<open>
  C7, as the specification words it, fails: five angles with the four link lengths
  give transforms, not \<open>DimensionMismatch\<close>.
\<close>

theorem forward_kinematics_five_angles_counterexample:
  "forward_kinematics [0, 0, 0, 0, 0] 0 0 0 (Finite 0) =
     Inr ([[1, 0, 0, 3], [0, 1, 0, 2], [0, 0, 1, 0], [0, 0, 0, 1]],
          [[1, 0, 0, 19 / 5], [0, 1, 0, 2], [0, 0, 1, 0], [0, 0, 0, 1]],
          [[1, 0, 0, 23 / 5], [0, 1, 0, 2], [0, 0, 1, 0], [0, 0, 0, 1]],
          [[1, 0, 0, 27 / 5], [0, 1, 0, 2], [0, 0, 1, 0], [0, 0, 0, 1]],
          [27 / 5, 2, 0]) \<and>
   forward_kinematics [0, 0, 0, 0, 0] 0 0 0 (Finite 0) \<noteq> Inl DimensionMismatch"
  by (simp add: forward_kinematics_frames fk_frames_def Let_def planar_T_def mat_mult_affine2)
     (simp add: affine2_def eval_nat_numeral)




section \<open>The unused link length\<close>

text \<open>
  C9. The result of \<open>forward_kinematics\<close>, transforms, end-effector position or
  error, does not depend on \<open>L4\<close>.
\<close>

theorem forward_kinematics_ignores_L4:
  "forward_kinematics Phi L1 L2 L3 L4 = forward_kinematics Phi L1 L2 L3 L4'"
  by (simp add: forward_kinematics_def)

section \<open>Float values: overflow and NaN\<close>

text \<open>
  Within float range \<open>overflow\<close> changes nothing; 0 times a finite value is 0.
\<close>

lemma fmax_large: "1000 \<le> fmax"
  by (simp add: fmax_def)

lemma overflow_in_range: "\<bar>r\<bar> \<le> fmax \<Longrightarrow> overflow r = Finite r"
  by (auto simp: overflow_def)

lemma overflow_small: "\<bar>r\<bar> \<le> 1000 \<Longrightarrow> overflow r = Finite r"
  using fmax_large by (intro overflow_in_range) linarith

lemma fmul_0: "fmul (Finite 0) (Finite b) = Finite 0"
  by (simp add: overflow_small)

lemma fmul_1_small: "\<bar>b\<bar> \<le> 1000 \<Longrightarrow> fmul (Finite 1) (Finite b) = Finite b"
  by (simp add: overflow_small)

lemma fadd_small: "\<bar>a + b\<bar> \<le> 1000 \<Longrightarrow> fadd (Finite a) (Finite b) = Finite (a + b)"
  by (simp add: overflow_small)

lemma link_offset:
  assumes "\<bar>l + 2 * 0.4\<bar> \<le> fmax"
  shows "fadd (Finite l) (fmul (Finite 2) (Finite 0.4)) = Finite (l + 2 * 0.4)"
proof -
  have "fmul (Finite 2) (Finite 0.4) = Finite (2 * 0.4)"
    by (simp add: overflow_small)
  then show ?thesis using assms by (simp add: overflow_in_range)
qed

text \<open>
  For an angle whose product with \<open>\<pi>\<close> is in range, the local transform has finite
  entries, the cosine and the sine of the real-valued function.
\<close>

lemma RotationMatrix_fl_z:
  assumes "\<bar>a * pi\<bar> \<le> fmax"
  shows "RotationMatrix_fl (Finite a) ''z'' =
     Inr [[Finite (cos (a * pi / 180)), Finite (- sin (a * pi / 180)), Finite 0],
          [Finite (sin (a * pi / 180)), Finite (cos (a * pi / 180)), Finite 0],
          [Finite 0, Finite 0, Finite 1]]"
proof -
  have "\<bar>a * pi / 180\<bar> \<le> \<bar>a * pi\<bar>" by (simp add: abs_mult)
  with assms have "\<bar>a * pi / 180\<bar> \<le> fmax" by linarith
  then have "fdiv_const (fmul (Finite a) (Finite pi)) 180 = Finite (a * pi / 180)"
    using assms by (simp add: overflow_in_range)
  then show ?thesis
    by (simp add: RotationMatrix_fl_def Let_def)
qed

lemma getLocalFrameMatrix_fl_3:
  "getLocalFrameMatrix_fl [[a, b, c], [d, e, f], [g, h, i]] [[x], [y], [z]] =
     Inr [[a, b, c, x], [d, e, f, y], [g, h, i, z],
          [Finite 0, Finite 0, Finite 0, Finite 1]]"
  by (simp add: getLocalFrameMatrix_fl_def bind_res_def np_hstack_def np_vstack_def
      np_zeros_fl_def ncols_def eval_nat_numeral)

lemma local_fl_z:
  assumes "\<bar>a * pi\<bar> \<le> fmax"
  shows "bind_res (RotationMatrix_fl (Finite a) ''z'')
     (\<lambda>R. bind_res (getLocalFrameMatrix_fl R [[Finite x], [Finite y], [Finite 0]]) f) =
     f (faffine (cos (a * pi / 180)) (- sin (a * pi / 180))
                (sin (a * pi / 180)) (cos (a * pi / 180)) x y)"
  by (simp add: RotationMatrix_fl_z [OF assms] getLocalFrameMatrix_fl_3 bind_res_def
      faffine_def)

lemma local_frame_fl_bind:
  "bind_res (RotationMatrix_fl phi ''z'') (\<lambda>R. bind_res (getLocalFrameMatrix_fl R t) f) =
   bind_res (local_frame_fl phi t) f"
  by (simp add: local_frame_fl_def bind_res_def split: sum.splits)

lemma local_frame_fl_zero:
  "local_frame_fl (Finite 0) [[Finite x], [Finite y], [Finite 0]] = Inr (faffine 1 0 0 1 x y)"
proof -
  have "\<bar>0 * pi\<bar> \<le> fmax" using fmax_large by simp
  from local_fl_z [OF this, of x y Inr] show ?thesis
    by (simp add: local_frame_fl_bind [symmetric] local_frame_fl_def bind_res_def
        split: sum.splits)
qed

text \<open>
  At the angle \<open>10\<^sup>3\<^sup>0\<^sup>8\<close>, a finite float, the product with \<open>\<pi>\<close> overflows: the cosine
  and the sine of the infinity are NaN.
\<close>

lemma fmax_less_huge: "fmax < 10 ^ 308 * pi"
proof -
  have "fmax < (2::real) ^ 1024" by (simp add: fmax_def)
  also have "\<dots> < 10 ^ 308 * 2" by simp
  also have "\<dots> \<le> 10 ^ 308 * pi" using pi_ge_two by simp
  finally show ?thesis .
qed

lemma local_frame_fl_huge:
  "local_frame_fl (Finite (10 ^ 308)) [[x], [Finite 0], [Finite 0]] =
     Inr [[NaN, NaN, Finite 0, x],
          [NaN, NaN, Finite 0, Finite 0],
          [Finite 0, Finite 0, Finite 1, Finite 0],
          [Finite 0, Finite 0, Finite 0, Finite 1]]"
proof -
  have "fmul (Finite (10 ^ 308)) (Finite pi) = PosInf"
    using fmax_less_huge by (simp add: overflow_def)
  then have "RotationMatrix_fl (Finite (10 ^ 308)) ''z'' =
      Inr [[NaN, NaN, Finite 0], [NaN, NaN, Finite 0], [Finite 0, Finite 0, Finite 1]]"
    by (simp add: RotationMatrix_fl_def Let_def)
  then show ?thesis
    by (simp add: local_frame_fl_def bind_res_Inr getLocalFrameMatrix_fl_3)
qed

text \<open>
  \<open>forward_kinematics_fl\<close> from its steps: the four local transforms, the three products
  and the last column.
\<close>

lemma forward_kinematics_fl_chain:
  assumes "4 \<le> length Phi"
    and "local_frame_fl (Phi ! 0) [[Finite 3], [Finite 2], [Finite 0]] = Inr Fa"
    and "local_frame_fl (Phi ! 1)
           [[fadd L1 (fmul (Finite 2) (Finite 0.4))], [Finite 0], [Finite 0]] = Inr Fb"
    and "local_frame_fl (Phi ! 2)
           [[fadd L2 (fmul (Finite 2) (Finite 0.4))], [Finite 0], [Finite 0]] = Inr Fc"
    and "local_frame_fl (Phi ! 3)
           [[fadd L3 (fmul (Finite 2) (Finite 0.4))], [Finite 0], [Finite 0]] = Inr Fd"
    and "matmul_fl Fa Fb = Inr Wb"
    and "matmul_fl Wb Fc = Inr Wc"
    and "matmul_fl Wc Fd = Inr Wd"
    and "last_column_0_3 Wd = Inr e"
  shows "forward_kinematics_fl Phi L1 L2 L3 L4 = Inr (Fa, Wb, Wc, Wd, e)"
proof -
  from assms(1) have idx: "0 < length Phi" "1 < length Phi" "2 < length Phi" "3 < length Phi"
    by auto
  show ?thesis
    unfolding forward_kinematics_fl_def Let_def
    using idx
    by (simp only: py_index_def if_True bind_res_Inr local_frame_fl_bind assms(2-))
qed

lemma matmul_fl_eval:
  "matmul_fl [[a0, a1, a2, a3], [b0, b1, b2, b3], [c0, c1, c2, c3], [d0, d1, d2, d3]]
             [[p0, p1, p2, p3], [q0, q1, q2, q3], [r0, r1, r2, r3], [s0, s1, s2, s3]] =
   Inr (map (\<lambda>u. map (\<lambda>v. dot_fl u v)
          [[p0, q0, r0, s0], [p1, q1, r1, s1], [p2, q2, r2, s2], [p3, q3, r3, s3]])
          [[a0, a1, a2, a3], [b0, b1, b2, b3], [c0, c1, c2, c3], [d0, d1, d2, d3]])"
  by (simp add: matmul_fl_def mat_mult_fl_def ncols_def column_def upt_4)

text \<open>
  The invariant of the chain: the product of a transform with the rows \<open>z_row\<close> and
  \<open>bottom_row\<close> and a local transform with finite entries has these two rows again,
  whatever the first two rows of the left factor hold.
\<close>

lemma planar_rows_faffine: "planar_rows (faffine a b c d x y)"
  by (simp add: planar_rows_def faffine_def z_row_def bottom_row_def)

lemma planar_rows_form:
  assumes "planar_rows T"
  shows "\<exists>r0 r1. length r0 = 4 \<and> length r1 = 4 \<and> T = [r0, r1, z_row, bottom_row]"
proof -
  from assms obtain r0 r1 r2 r3 where T: "T = [r0, r1, r2, r3]"
    using list_4 [of T] by (auto simp: planar_rows_def)
  with assms show ?thesis
    by (simp add: planar_rows_def)
qed

lemma matmul_fl_planar:
  assumes "planar_rows A"
  shows "\<exists>C. matmul_fl A (faffine a b c d x y) = Inr C \<and> planar_rows C"
proof -
  from planar_rows_form [OF assms] obtain r0 r1
    where len: "length r0 = 4" "length r1 = 4" and A: "A = [r0, r1, z_row, bottom_row]"
    by blast
  have nc: "ncols (faffine a b c d x y) = 4" "length (faffine a b c d x y) = 4"
    by (simp_all add: faffine_def ncols_def)
  have z: "map (\<lambda>j. dot_fl z_row (column (faffine a b c d x y) j)) [0, 1, 2, 3] = z_row"
    by (simp add: dot_fl_def z_row_def faffine_def column_def overflow_small)
  have b: "map (\<lambda>j. dot_fl bottom_row (column (faffine a b c d x y) j)) [0, 1, 2, 3] =
      bottom_row"
    by (simp add: dot_fl_def bottom_row_def faffine_def column_def overflow_small)
  have "matmul_fl A (faffine a b c d x y) = Inr (mat_mult_fl A (faffine a b c d x y))"
    by (simp add: matmul_fl_def A ncols_def len nc)
  moreover have "planar_rows (mat_mult_fl A (faffine a b c d x y))"
    using z b by (simp add: planar_rows_def mat_mult_fl_def A nc upt_4)
  ultimately show ?thesis by blast
qed

lemma last_column_planar:
  assumes "planar_rows T"
  shows "\<exists>u v. last_column_0_3 T = Inr [u, v, Finite 0]"
proof -
  from planar_rows_form [OF assms] obtain r0 r1
    where len: "length r0 = 4" "length r1 = 4" and T: "T = [r0, r1, z_row, bottom_row]"
    by blast
  show ?thesis
    by (simp add: last_column_0_3_def T ncols_def len z_row_def eval_nat_numeral)
qed

lemma planar_rows_entries:
  assumes "planar_rows T"
  shows "last T = bottom_row" and "T ! 2 ! 3 = Finite 0" and "is_shape 4 4 T"
proof -
  from planar_rows_form [OF assms] obtain r0 r1
    where len: "length r0 = 4" "length r1 = 4" and T: "T = [r0, r1, z_row, bottom_row]"
    by blast
  show "last T = bottom_row" by (simp add: T)
  show "T ! 2 ! 3 = Finite 0" by (simp add: T z_row_def)
  show "is_shape 4 4 T" by (simp add: T is_shape_def len z_row_def bottom_row_def)
qed

lemma forward_kinematics_fl_planar:
  assumes len: "4 \<le> length Phi"
    and ang: "list_all angle_in_range (take 4 Phi)"
    and L: "length_in_range L1" "length_in_range L2" "length_in_range L3"
  shows "\<exists>T_01 T_02 T_03 T_04 u v.
     forward_kinematics_fl Phi L1 L2 L3 L4 = Inr (T_01, T_02, T_03, T_04, [u, v, Finite 0]) \<and>
     planar_rows T_01 \<and> planar_rows T_02 \<and> planar_rows T_03 \<and> planar_rows T_04"
proof -
  from len have idx: "0 < length Phi" "1 < length Phi" "2 < length Phi" "3 < length Phi"
    by auto
  have "angle_in_range (Phi ! n)" if "n < 4" for n
  proof -
    from that len have "n < length (take 4 Phi)" by simp
    with ang have "angle_in_range (take 4 Phi ! n)" by (simp add: list_all_length)
    with that show ?thesis by simp
  qed
  then have "angle_in_range (Phi ! 0)" "angle_in_range (Phi ! 1)"
    "angle_in_range (Phi ! 2)" "angle_in_range (Phi ! 3)" by simp_all
  then obtain a0 a1 a2 a3 where
    P: "Phi ! 0 = Finite a0" "Phi ! 1 = Finite a1" "Phi ! 2 = Finite a2" "Phi ! 3 = Finite a3"
    and R: "\<bar>a0 * pi\<bar> \<le> fmax" "\<bar>a1 * pi\<bar> \<le> fmax" "\<bar>a2 * pi\<bar> \<le> fmax" "\<bar>a3 * pi\<bar> \<le> fmax"
    by (auto simp: angle_in_range_def split: pyfloat.splits)
  from L obtain l1 l2 l3 where
    Ls: "L1 = Finite l1" "L2 = Finite l2" "L3 = Finite l3"
    and LR: "\<bar>l1 + 2 * 0.4\<bar> \<le> fmax" "\<bar>l2 + 2 * 0.4\<bar> \<le> fmax" "\<bar>l3 + 2 * 0.4\<bar> \<le> fmax"
    by (auto simp: length_in_range_def split: pyfloat.splits)
  define B0 where "B0 = faffine (cos (a0 * pi / 180)) (- sin (a0 * pi / 180))
      (sin (a0 * pi / 180)) (cos (a0 * pi / 180)) 3 2"
  define B1 where "B1 = faffine (cos (a1 * pi / 180)) (- sin (a1 * pi / 180))
      (sin (a1 * pi / 180)) (cos (a1 * pi / 180)) (l1 + 2 * 0.4) 0"
  define B2 where "B2 = faffine (cos (a2 * pi / 180)) (- sin (a2 * pi / 180))
      (sin (a2 * pi / 180)) (cos (a2 * pi / 180)) (l2 + 2 * 0.4) 0"
  define B3 where "B3 = faffine (cos (a3 * pi / 180)) (- sin (a3 * pi / 180))
      (sin (a3 * pi / 180)) (cos (a3 * pi / 180)) (l3 + 2 * 0.4) 0"
  have p0: "planar_rows B0" by (simp add: B0_def planar_rows_faffine)
  obtain T_02 where m2: "matmul_fl B0 B1 = Inr T_02" and p2: "planar_rows T_02"
    using matmul_fl_planar [OF p0] unfolding B1_def by blast
  obtain T_03 where m3: "matmul_fl T_02 B2 = Inr T_03" and p3: "planar_rows T_03"
    using matmul_fl_planar [OF p2] unfolding B2_def by blast
  obtain T_04 where m4: "matmul_fl T_03 B3 = Inr T_04" and p4: "planar_rows T_04"
    using matmul_fl_planar [OF p3] unfolding B3_def by blast
  obtain u v where e: "last_column_0_3 T_04 = Inr [u, v, Finite 0]"
    using last_column_planar [OF p4] by blast
  have "forward_kinematics_fl Phi L1 L2 L3 L4 =
      bind_res (matmul_fl B0 B1) (\<lambda>T_02.
      bind_res (matmul_fl B0 B1) (\<lambda>T_012.
      bind_res (matmul_fl T_012 B2) (\<lambda>T_03.
      bind_res (matmul_fl B0 B1) (\<lambda>T_012'.
      bind_res (matmul_fl T_012' B2) (\<lambda>T_0123.
      bind_res (matmul_fl T_0123 B3) (\<lambda>T_04.
      bind_res (last_column_0_3 T_04) (\<lambda>e.
      Inr (B0, T_02, T_03, T_04, e))))))))"
    unfolding forward_kinematics_fl_def Let_def
    using idx
    by (simp only: py_index_def if_True bind_res_Inr P Ls link_offset [OF LR(1)]
        link_offset [OF LR(2)] link_offset [OF LR(3)] local_fl_z [OF R(1)] local_fl_z [OF R(2)]
        local_fl_z [OF R(3)] local_fl_z [OF R(4)] B0_def B1_def B2_def B3_def)
  also have "\<dots> = Inr (B0, T_02, T_03, T_04, [u, v, Finite 0])"
    by (simp add: m2 m3 m4 e bind_res_Inr)
  finally show ?thesis
    using p0 p2 p3 p4 by blast
qed

lemma getLocalFrameMatrix_fl_last:
  "getLocalFrameMatrix_fl R t = Inr T \<Longrightarrow> last T = bottom_row"
  by (auto simp: getLocalFrameMatrix_fl_def bind_res_def np_hstack_def np_vstack_def
      np_zeros_fl_def bottom_row_def eval_nat_numeral split: if_splits)

lemma is_Finite_ex: "is_Finite x \<Longrightarrow> \<exists>a. x = Finite a"
  by (cases x) (simp_all add: is_Finite_def)

lemma dot_fl_bottom_row:
  assumes "is_Finite p" and "is_Finite q" and "is_Finite r" and "\<bar>s\<bar> \<le> 1000"
  shows "dot_fl bottom_row [p, q, r, Finite s] = Finite s"
proof -
  from assms(1-3) obtain a b c where "p = Finite a" "q = Finite b" "r = Finite c"
    using is_Finite_ex by blast
  with assms(4) show ?thesis
    by (simp add: dot_fl_def bottom_row_def overflow_small)
qed

lemma matmul_fl_bottom_row:
  assumes A: "is_shape 4 4 A" and B: "is_shape 4 4 B"
    and lA: "last A = bottom_row" and lB: "last B = bottom_row"
    and fin: "list_all (list_all is_Finite) B"
  shows "\<exists>C. matmul_fl A B = Inr C \<and> is_shape 4 4 C \<and> last C = bottom_row"
proof -
  obtain a0 a1 a2 a3 b0 b1 b2 b3 c0 c1 c2 c3 d0 d1 d2 d3 where
    Aeq: "A = [[a0, a1, a2, a3], [b0, b1, b2, b3], [c0, c1, c2, c3], [d0, d1, d2, d3]]"
    using shape_4_4 [OF A] by (elim exE) (rule that)
  obtain p0 p1 p2 p3 q0 q1 q2 q3 r0 r1 r2 r3 s0 s1 s2 s3 where
    Beq: "B = [[p0, p1, p2, p3], [q0, q1, q2, q3], [r0, r1, r2, r3], [s0, s1, s2, s3]]"
    using shape_4_4 [OF B] by (elim exE) (rule that)
  from lA Aeq have dA: "d0 = Finite 0" "d1 = Finite 0" "d2 = Finite 0" "d3 = Finite 1"
    by (simp_all add: bottom_row_def)
  from lB Beq have sB: "s0 = Finite 0" "s1 = Finite 0" "s2 = Finite 0" "s3 = Finite 1"
    by (simp_all add: bottom_row_def)
  from fin Beq have f:
    "is_Finite p0" "is_Finite p1" "is_Finite p2" "is_Finite p3"
    "is_Finite q0" "is_Finite q1" "is_Finite q2" "is_Finite q3"
    "is_Finite r0" "is_Finite r1" "is_Finite r2" "is_Finite r3"
    by simp_all
  show ?thesis
    by (simp add: Aeq Beq dA sB matmul_fl_eval is_shape_def bottom_row_def f
        dot_fl_bottom_row [unfolded bottom_row_def])
qed

lemma angle_in_range_small: "\<bar>a\<bar> \<le> 200 \<Longrightarrow> angle_in_range (Finite a)"
proof -
  assume a: "\<bar>a\<bar> \<le> 200"
  have "\<bar>a * pi\<bar> = \<bar>a\<bar> * pi" by (simp add: abs_mult)
  also have "\<dots> \<le> 200 * 4"
    using a pi_less_4 by (intro mult_mono) simp_all
  finally show ?thesis
    using fmax_large by (simp add: angle_in_range_def)
qed

lemma length_in_range_small: "\<bar>l\<bar> \<le> 200 \<Longrightarrow> length_in_range (Finite l)"
  using fmax_large by (simp add: length_in_range_def)

section \<open>The bottom row and planarity on float values\<close>

text \<open>
  C6, as the source has it. Every transform that \<open>getLocalFrameMatrix\<close> returns has
  the bottom row \<open>[0, 0, 0, 1]\<close>, whatever its entries are (and it returns one for every
  3 by 3 block and 3 by 1 translation). Each of \<open>T_01\<close>, \<open>T_02\<close>, \<open>T_03\<close>, \<open>T_04\<close> returned
  by \<open>forward_kinematics\<close> has it when the product of each of the four angles with \<open>\<pi>\<close>
  and each of \<open>L1 + 2 r1\<close>, \<open>L2 + 2 r1\<close>, \<open>L3 + 2 r1\<close> is within float range. The product
  \<open>A @ B\<close> of two 4 by 4 arrays with that bottom row has it when the entries of \<open>B\<close> are
  finite; the entries of \<open>A\<close> above its bottom row may be anything.
\<close>

theorem bottom_row_in_range:
  "(getLocalFrameMatrix_fl R t = Inr T \<longrightarrow> last T = bottom_row) \<and>
   (is_shape 3 3 R' \<and> is_shape 3 1 t' \<longrightarrow> (\<exists>T'. getLocalFrameMatrix_fl R' t' = Inr T')) \<and>
   (4 \<le> length Phi \<and> list_all angle_in_range (take 4 Phi) \<and>
    length_in_range L1 \<and> length_in_range L2 \<and> length_in_range L3 \<longrightarrow>
      (\<exists>T_01 T_02 T_03 T_04 e.
         forward_kinematics_fl Phi L1 L2 L3 L4 = Inr (T_01, T_02, T_03, T_04, e) \<and>
         last T_01 = bottom_row \<and> last T_02 = bottom_row \<and>
         last T_03 = bottom_row \<and> last T_04 = bottom_row)) \<and>
   (is_shape 4 4 A \<and> is_shape 4 4 B \<and> last A = bottom_row \<and> last B = bottom_row \<and>
    list_all (list_all is_Finite) B \<longrightarrow>
      (\<exists>C. matmul_fl A B = Inr C \<and> is_shape 4 4 C \<and> last C = bottom_row))"
proof (intro conjI impI)
  assume "getLocalFrameMatrix_fl R t = Inr T"
  then show "last T = bottom_row" by (rule getLocalFrameMatrix_fl_last)
next
  assume "is_shape 3 3 R' \<and> is_shape 3 1 t'"
  then obtain a b c d e f g h i x y z
    where "R' = [[a, b, c], [d, e, f], [g, h, i]]" and "t' = [[x], [y], [z]]"
    using shape_3_3 [of R'] shape_3_1 [of t'] by (elim conjE) (auto elim!: exE)
  then show "\<exists>T'. getLocalFrameMatrix_fl R' t' = Inr T'"
    by (simp add: getLocalFrameMatrix_fl_3)
next
  assume H: "4 \<le> length Phi \<and> list_all angle_in_range (take 4 Phi) \<and>
    length_in_range L1 \<and> length_in_range L2 \<and> length_in_range L3"
  then obtain T_01 T_02 T_03 T_04 u v where
    fk: "forward_kinematics_fl Phi L1 L2 L3 L4 =
      Inr (T_01, T_02, T_03, T_04, [u, v, Finite 0])"
    and p: "planar_rows T_01" "planar_rows T_02" "planar_rows T_03" "planar_rows T_04"
    using forward_kinematics_fl_planar [of Phi L1 L2 L3 L4] by blast
  from p have "last T_01 = bottom_row" "last T_02 = bottom_row"
    "last T_03 = bottom_row" "last T_04 = bottom_row"
    by (simp_all add: planar_rows_entries)
  with fk show "\<exists>T_01 T_02 T_03 T_04 e.
         forward_kinematics_fl Phi L1 L2 L3 L4 = Inr (T_01, T_02, T_03, T_04, e) \<and>
         last T_01 = bottom_row \<and> last T_02 = bottom_row \<and>
         last T_03 = bottom_row \<and> last T_04 = bottom_row"
    by blast
next
  assume "is_shape 4 4 A \<and> is_shape 4 4 B \<and> last A = bottom_row \<and> last B = bottom_row \<and>
    list_all (list_all is_Finite) B"
  then show "\<exists>C. matmul_fl A B = Inr C \<and> is_shape 4 4 C \<and> last C = bottom_row"
    using matmul_fl_bottom_row by blast
qed

text \<open>
  The same at a rotation block of NaN entries, at the angles and link lengths of \<open>main\<close>,
  and at a left factor with NaN and infinite entries times a quarter turn.
\<close>

theorem bottom_row_in_range_witness:
  "getLocalFrameMatrix_fl
      [[NaN, NaN, Finite 0], [NaN, NaN, Finite 0], [Finite 0, Finite 0, Finite 1]]
      [[Finite 3], [Finite 2], [Finite 0]] =
     Inr [[NaN, NaN, Finite 0, Finite 3], [NaN, NaN, Finite 0, Finite 2],
          [Finite 0, Finite 0, Finite 1, Finite 0], [Finite 0, Finite 0, Finite 0, Finite 1]] \<and>
   last [[NaN, NaN, Finite 0, Finite 3], [NaN, NaN, Finite 0, Finite 2],
         [Finite 0, Finite 0, Finite 1, Finite 0], [Finite 0, Finite 0, Finite 0, Finite 1]] =
     bottom_row \<and>
   is_shape 3 3 [[NaN, NaN, Finite 0], [NaN, NaN, Finite 0], [Finite 0, Finite 0, Finite 1]] \<and>
   is_shape 3 1 [[Finite 3], [Finite 2], [Finite 0]] \<and>
   4 \<le> length [Finite 30, Finite (- 10), Finite 0, Finite 2] \<and>
   list_all angle_in_range (take 4 [Finite 30, Finite (- 10), Finite 0, Finite 2]) \<and>
   length_in_range (Finite 5) \<and> length_in_range (Finite 8) \<and> length_in_range (Finite 3) \<and>
   (\<exists>T_01 T_02 T_03 T_04 e.
      forward_kinematics_fl [Finite 30, Finite (- 10), Finite 0, Finite 2]
        (Finite 5) (Finite 8) (Finite 3) (Finite 0) = Inr (T_01, T_02, T_03, T_04, e) \<and>
      last T_01 = bottom_row \<and> last T_02 = bottom_row \<and>
      last T_03 = bottom_row \<and> last T_04 = bottom_row) \<and>
   is_shape 4 4 [[NaN, NaN, Finite 0, PosInf], [NaN, NaN, Finite 0, Finite 2],
                 [Finite 0, Finite 0, Finite 1, Finite 0],
                 [Finite 0, Finite 0, Finite 0, Finite 1]] \<and>
   is_shape 4 4 (faffine 0 (- 1) 1 0 5 0) \<and>
   last [[NaN, NaN, Finite 0, PosInf], [NaN, NaN, Finite 0, Finite 2],
         [Finite 0, Finite 0, Finite 1, Finite 0],
         [Finite 0, Finite 0, Finite 0, Finite 1]] = bottom_row \<and>
   last (faffine 0 (- 1) 1 0 5 0) = bottom_row \<and>
   list_all (list_all is_Finite) (faffine 0 (- 1) 1 0 5 0) \<and>
   (\<exists>C. matmul_fl [[NaN, NaN, Finite 0, PosInf], [NaN, NaN, Finite 0, Finite 2],
                    [Finite 0, Finite 0, Finite 1, Finite 0],
                    [Finite 0, Finite 0, Finite 0, Finite 1]]
                   (faffine 0 (- 1) 1 0 5 0) = Inr C \<and>
        is_shape 4 4 C \<and> last C = bottom_row)"
  using bottom_row_in_range
    [of "[[NaN, NaN, Finite 0], [NaN, NaN, Finite 0], [Finite 0, Finite 0, Finite 1]]"
      "[[Finite 3], [Finite 2], [Finite 0]]"
      "[[NaN, NaN, Finite 0, Finite 3], [NaN, NaN, Finite 0, Finite 2],
        [Finite 0, Finite 0, Finite 1, Finite 0], [Finite 0, Finite 0, Finite 0, Finite 1]]"
      "[[NaN, NaN, Finite 0], [NaN, NaN, Finite 0], [Finite 0, Finite 0, Finite 1]]"
      "[[Finite 3], [Finite 2], [Finite 0]]"
      "[Finite 30, Finite (- 10), Finite 0, Finite 2]" "Finite 5" "Finite 8" "Finite 3"
      "Finite 0"
      "[[NaN, NaN, Finite 0, PosInf], [NaN, NaN, Finite 0, Finite 2],
        [Finite 0, Finite 0, Finite 1, Finite 0], [Finite 0, Finite 0, Finite 0, Finite 1]]"
      "faffine 0 (- 1) 1 0 5 0"]
  by (simp add: getLocalFrameMatrix_fl_3 is_shape_def bottom_row_def faffine_def
      is_Finite_def angle_in_range_small length_in_range_small)

text \<open>
  C6, as the specification words it, fails: at the finite angles
  \<open>[0, 10\<^sup>3\<^sup>0\<^sup>8, 0, 0]\<close> the second local transform has NaN entries, \<open>0 * NaN\<close> is NaN, and
  the bottom row of \<open>T_02\<close> is \<open>[NaN, NaN, 0, 1]\<close>; those of \<open>T_03\<close> and \<open>T_04\<close> are NaN
  throughout.
\<close>

theorem bottom_row_fl_counterexample:
  "forward_kinematics_fl [Finite 0, Finite (10 ^ 308), Finite 0, Finite 0]
      (Finite 5) (Finite 8) (Finite 3) (Finite 0) =
     Inr ([[Finite 1, Finite 0, Finite 0, Finite 3],
           [Finite 0, Finite 1, Finite 0, Finite 2],
           [Finite 0, Finite 0, Finite 1, Finite 0],
           [Finite 0, Finite 0, Finite 0, Finite 1]],
          [[NaN, NaN, Finite 0, Finite (44 / 5)],
           [NaN, NaN, Finite 0, Finite 2],
           [NaN, NaN, Finite 1, Finite 0],
           [NaN, NaN, Finite 0, Finite 1]],
          [[NaN, NaN, NaN, NaN], [NaN, NaN, NaN, NaN],
           [NaN, NaN, NaN, NaN], [NaN, NaN, NaN, NaN]],
          [[NaN, NaN, NaN, NaN], [NaN, NaN, NaN, NaN],
           [NaN, NaN, NaN, NaN], [NaN, NaN, NaN, NaN]],
          [NaN, NaN, NaN])"
proof (rule forward_kinematics_fl_chain
    [where Fb = "[[NaN, NaN, Finite 0, Finite (29 / 5)],
                    [NaN, NaN, Finite 0, Finite 0],
                    [Finite 0, Finite 0, Finite 1, Finite 0],
                    [Finite 0, Finite 0, Finite 0, Finite 1]]"
       and Fc = "faffine 1 0 0 1 (44 / 5) 0"
       and Fd = "faffine 1 0 0 1 (19 / 5) 0"])
  show "4 \<le> length [Finite 0, Finite (10 ^ 308), Finite 0, Finite 0]" by simp
  show "local_frame_fl ([Finite 0, Finite (10 ^ 308), Finite 0, Finite 0] ! 0)
      [[Finite 3], [Finite 2], [Finite 0]] =
     Inr [[Finite 1, Finite 0, Finite 0, Finite 3],
           [Finite 0, Finite 1, Finite 0, Finite 2],
           [Finite 0, Finite 0, Finite 1, Finite 0],
           [Finite 0, Finite 0, Finite 0, Finite 1]]"
    by (simp add: local_frame_fl_zero faffine_def)
  have "[Finite 0, Finite (10 ^ 308), Finite 0, Finite 0] ! 1 = Finite (10 ^ 308)"
    by simp
  then show "local_frame_fl ([Finite 0, Finite (10 ^ 308), Finite 0, Finite 0] ! 1)
      [[fadd (Finite 5) (fmul (Finite 2) (Finite 0.4))], [Finite 0], [Finite 0]] =
     Inr [[NaN, NaN, Finite 0, Finite (29 / 5)],
                    [NaN, NaN, Finite 0, Finite 0],
                    [Finite 0, Finite 0, Finite 1, Finite 0],
                    [Finite 0, Finite 0, Finite 0, Finite 1]]"
    by (simp only: local_frame_fl_huge) (simp add: overflow_small)
  show "local_frame_fl ([Finite 0, Finite (10 ^ 308), Finite 0, Finite 0] ! 2)
      [[fadd (Finite 8) (fmul (Finite 2) (Finite 0.4))], [Finite 0], [Finite 0]] =
     Inr (faffine 1 0 0 1 (44 / 5) 0)"
    by (simp add: overflow_small local_frame_fl_zero)
  show "local_frame_fl ([Finite 0, Finite (10 ^ 308), Finite 0, Finite 0] ! 3)
      [[fadd (Finite 3) (fmul (Finite 2) (Finite 0.4))], [Finite 0], [Finite 0]] =
     Inr (faffine 1 0 0 1 (19 / 5) 0)"
    by (simp add: overflow_small local_frame_fl_zero)
qed (simp_all add: faffine_def matmul_fl_eval dot_fl_def overflow_small
       last_column_0_3_def ncols_def eval_nat_numeral)

text \<open>
  C10, as the source has it. When the product of each of the four angles with \<open>\<pi>\<close> and
  each of \<open>L1 + 2 r1\<close>, \<open>L2 + 2 r1\<close>, \<open>L3 + 2 r1\<close> is within float range, the arm stays in
  the plane: the z entry of the translation column of each returned \<open>T_01\<close>, \<open>T_02\<close>,
  \<open>T_03\<close>, \<open>T_04\<close> is 0, and so is the z entry of the end-effector position \<open>e\<close>.
\<close>

theorem forward_kinematics_planar_in_range:
  assumes "4 \<le> length Phi" and "list_all angle_in_range (take 4 Phi)"
    and "length_in_range L1" and "length_in_range L2" and "length_in_range L3"
  shows "\<exists>T_01 T_02 T_03 T_04 e.
     forward_kinematics_fl Phi L1 L2 L3 L4 = Inr (T_01, T_02, T_03, T_04, e) \<and>
     T_01 ! 2 ! 3 = Finite 0 \<and> T_02 ! 2 ! 3 = Finite 0 \<and>
     T_03 ! 2 ! 3 = Finite 0 \<and> T_04 ! 2 ! 3 = Finite 0 \<and>
     length e = 3 \<and> e ! 2 = Finite 0"
proof -
  obtain T_01 T_02 T_03 T_04 u v where
    fk: "forward_kinematics_fl Phi L1 L2 L3 L4 =
      Inr (T_01, T_02, T_03, T_04, [u, v, Finite 0])"
    and p: "planar_rows T_01" "planar_rows T_02" "planar_rows T_03" "planar_rows T_04"
    using forward_kinematics_fl_planar [OF assms, of L4] by blast
  from p have "T_01 ! 2 ! 3 = Finite 0" "T_02 ! 2 ! 3 = Finite 0"
    "T_03 ! 2 ! 3 = Finite 0" "T_04 ! 2 ! 3 = Finite 0"
    by (simp_all add: planar_rows_entries)
  moreover have "length [u, v, Finite 0] = 3" "[u, v, Finite 0] ! 2 = Finite 0"
    by simp_all
  ultimately show ?thesis using fk by blast
qed

text \<open>
  The same at the angles and link lengths of \<open>main\<close>.
\<close>

theorem forward_kinematics_planar_in_range_witness:
  "4 \<le> length [Finite 30, Finite (- 10), Finite 0, Finite 2] \<and>
   list_all angle_in_range (take 4 [Finite 30, Finite (- 10), Finite 0, Finite 2]) \<and>
   length_in_range (Finite 5) \<and> length_in_range (Finite 8) \<and> length_in_range (Finite 3) \<and>
   (\<exists>T_01 T_02 T_03 T_04 e.
     forward_kinematics_fl [Finite 30, Finite (- 10), Finite 0, Finite 2]
        (Finite 5) (Finite 8) (Finite 3) (Finite 0) = Inr (T_01, T_02, T_03, T_04, e) \<and>
     T_01 ! 2 ! 3 = Finite 0 \<and> T_02 ! 2 ! 3 = Finite 0 \<and>
     T_03 ! 2 ! 3 = Finite 0 \<and> T_04 ! 2 ! 3 = Finite 0 \<and>
     length e = 3 \<and> e ! 2 = Finite 0)"
proof -
  have h1: "4 \<le> length [Finite 30, Finite (- 10), Finite 0, Finite 2]" by simp
  have h2: "list_all angle_in_range (take 4 [Finite 30, Finite (- 10), Finite 0, Finite 2])"
    by (simp add: angle_in_range_small)
  have h3: "length_in_range (Finite 5)" "length_in_range (Finite 8)"
    "length_in_range (Finite 3)"
    by (simp_all add: length_in_range_small)
  show ?thesis
    using h1 h2 h3 forward_kinematics_planar_in_range [OF h1 h2 h3, of "Finite 0"]
    by blast
qed

text \<open>
  C10, as the specification words it, fails: at the finite angles
  \<open>[0, 0, 10\<^sup>3\<^sup>0\<^sup>8, 0]\<close> the z entry of the translation of \<open>T_04\<close> and the z entry of
  \<open>e\<close> are NaN.
\<close>

theorem planar_fl_counterexample:
  "forward_kinematics_fl [Finite 0, Finite 0, Finite (10 ^ 308), Finite 0]
      (Finite 5) (Finite 8) (Finite 3) (Finite 0) =
     Inr ([[Finite 1, Finite 0, Finite 0, Finite 3],
           [Finite 0, Finite 1, Finite 0, Finite 2],
           [Finite 0, Finite 0, Finite 1, Finite 0],
           [Finite 0, Finite 0, Finite 0, Finite 1]],
          [[Finite 1, Finite 0, Finite 0, Finite (44 / 5)],
           [Finite 0, Finite 1, Finite 0, Finite 2],
           [Finite 0, Finite 0, Finite 1, Finite 0],
           [Finite 0, Finite 0, Finite 0, Finite 1]],
          [[NaN, NaN, Finite 0, Finite (88 / 5)],
           [NaN, NaN, Finite 0, Finite 2],
           [NaN, NaN, Finite 1, Finite 0],
           [NaN, NaN, Finite 0, Finite 1]],
          [[NaN, NaN, NaN, NaN], [NaN, NaN, NaN, NaN],
           [NaN, NaN, NaN, NaN], [NaN, NaN, NaN, NaN]],
          [NaN, NaN, NaN])"
proof (rule forward_kinematics_fl_chain
    [where Fb = "faffine 1 0 0 1 (29 / 5) 0"
       and Fc = "[[NaN, NaN, Finite 0, Finite (44 / 5)],
                    [NaN, NaN, Finite 0, Finite 0],
                    [Finite 0, Finite 0, Finite 1, Finite 0],
                    [Finite 0, Finite 0, Finite 0, Finite 1]]"
       and Fd = "faffine 1 0 0 1 (19 / 5) 0"])
  show "4 \<le> length [Finite 0, Finite 0, Finite (10 ^ 308), Finite 0]" by simp
  show "local_frame_fl ([Finite 0, Finite 0, Finite (10 ^ 308), Finite 0] ! 0)
      [[Finite 3], [Finite 2], [Finite 0]] =
     Inr [[Finite 1, Finite 0, Finite 0, Finite 3],
           [Finite 0, Finite 1, Finite 0, Finite 2],
           [Finite 0, Finite 0, Finite 1, Finite 0],
           [Finite 0, Finite 0, Finite 0, Finite 1]]"
    by (simp add: local_frame_fl_zero faffine_def)
  show "local_frame_fl ([Finite 0, Finite 0, Finite (10 ^ 308), Finite 0] ! 1)
      [[fadd (Finite 5) (fmul (Finite 2) (Finite 0.4))], [Finite 0], [Finite 0]] =
     Inr (faffine 1 0 0 1 (29 / 5) 0)"
    by (simp add: overflow_small local_frame_fl_zero)
  have "[Finite 0, Finite 0, Finite (10 ^ 308), Finite 0] ! 2 = Finite (10 ^ 308)"
    by simp
  then show "local_frame_fl ([Finite 0, Finite 0, Finite (10 ^ 308), Finite 0] ! 2)
      [[fadd (Finite 8) (fmul (Finite 2) (Finite 0.4))], [Finite 0], [Finite 0]] =
     Inr [[NaN, NaN, Finite 0, Finite (44 / 5)],
                    [NaN, NaN, Finite 0, Finite 0],
                    [Finite 0, Finite 0, Finite 1, Finite 0],
                    [Finite 0, Finite 0, Finite 0, Finite 1]]"
    by (simp only: local_frame_fl_huge) (simp add: overflow_small)
  show "local_frame_fl ([Finite 0, Finite 0, Finite (10 ^ 308), Finite 0] ! 3)
      [[fadd (Finite 3) (fmul (Finite 2) (Finite 0.4))], [Finite 0], [Finite 0]] =
     Inr (faffine 1 0 0 1 (19 / 5) 0)"
    by (simp add: overflow_small local_frame_fl_zero)
qed (simp_all add: faffine_def matmul_fl_eval dot_fl_def overflow_small
       last_column_0_3_def ncols_def eval_nat_numeral)

end
